theory Spec2Isabelle
  imports Main "HOL-Library.Word"
begin

unbundle bit_operations_syntax

section \<open>Errors\<close>

text \<open>
  Go errors as values. \<open>ApiNotFound\<close> is the store's not-found status error (the one
  \<open>apierrors.IsNotFound\<close> recognises), \<open>ErrNotFound\<close> is the sentinel
  \<open>tinkclient.ErrNotFound\<close>, \<open>Failure\<close> is any other error, and \<open>Wrap m e\<close> is
  \<open>fmt.Errorf("m: %w", e)\<close>.
\<close>

datatype error = ApiNotFound | ErrNotFound | Failure string | Wrap string error

text \<open>\<open>errors.Is\<close>: the error itself or any error of its \<open>%w\<close> chain equals the target.\<close>

fun errors_Is :: "error \<Rightarrow> error \<Rightarrow> bool" where
  "errors_Is (Wrap m e) target = (Wrap m e = target \<or> errors_Is e target)"
| "errors_Is e target = (e = target)"

text \<open>\<open>apierrors.IsNotFound\<close>: the reason of a status error is NotFound.\<close>

fun IsNotFound :: "error \<Rightarrow> bool" where
  "IsNotFound ApiNotFound = True"
| "IsNotFound _ = False"

section \<open>Data model\<close>

text \<open>
  The messages of the remote service (package \<open>workflow\<close> of the tink protos) with the
  getters that \<open>reconcileStatus\<close> reads.
\<close>

datatype State = STATE_PENDING | STATE_RUNNING | STATE_FAILED | STATE_TIMEOUT | STATE_SUCCESS

fun State_String :: "State \<Rightarrow> string" where
  "State_String STATE_PENDING = ''STATE_PENDING''"
| "State_String STATE_RUNNING = ''STATE_RUNNING''"
| "State_String STATE_FAILED = ''STATE_FAILED''"
| "State_String STATE_TIMEOUT = ''STATE_TIMEOUT''"
| "State_String STATE_SUCCESS = ''STATE_SUCCESS''"

record TinkWorkflow =
  tw_Id :: string
  tw_Data :: string

record WorkflowAction =
  wa_Name :: string
  wa_TaskName :: string
  wa_Image :: string
  wa_Timeout :: int
  wa_Command :: "string list"
  wa_OnTimeout :: "string list"
  wa_OnFailure :: "string list"
  wa_WorkerId :: string
  wa_Volumes :: "string list"
  wa_Environment :: "string list"

record WorkflowActionStatus =
  was_ActionName :: string
  was_TaskName :: string
  was_ActionStatus :: State
  was_Seconds :: int
  was_Message :: string
  was_WorkerId :: string
  was_CreatedAt :: int

text \<open>The status elements of the local resource (\<open>tinkv1alpha1.Action\<close>, \<open>tinkv1alpha1.Event\<close>).\<close>

record Action =
  Action_Name :: string
  Action_TaskName :: string
  Action_Image :: string
  Action_Timeout :: int
  Action_Command :: "string list"
  Action_OnTimeout :: "string list"
  Action_OnFailure :: "string list"
  Action_WorkerID :: string
  Action_Volumes :: "string list"
  Action_Environment :: "string list"

record Event =
  Event_ActionName :: string
  Event_TaskName :: string
  Event_ActionStatus :: string
  Event_Seconds :: int
  Event_Message :: string
  Event_WorkerID :: string
  Event_CreatedAt :: int

record WorkflowStatus =
  Status_State :: string
  Status_Data :: string
  Status_Metadata :: string
  Status_Actions :: "Action list"
  Status_Events :: "Event list"

text \<open>
  The Workflow resource: its name, the deletion timestamp (\<open>None\<close> is the nil pointer),
  the finalizer list, the recorded id of the remote execution, the two references of
  the spec and the status.
\<close>

record Workflow =
  Name :: string
  DeletionTimestamp :: "nat option"
  Finalizers :: "string list"
  remoteID :: string
  Spec_HardwareRef :: string
  Spec_TemplateRef :: string
  Status :: WorkflowStatus

record Hardware =
  Hardware_Spec_ID :: string

record Template =
  Template_remoteID :: string

record NamespacedName =
  Namespace :: string
  req_Name :: string

text \<open>\<open>ctrl.Result\<close>; \<open>RequeueAfter\<close> is a \<open>time.Duration\<close>, a count of nanoseconds.\<close>

record Result =
  Requeue :: bool
  RequeueAfter :: int

definition Second :: int where
  "Second = 1000000000"

definition Minute :: int where
  "Minute = 60 * Second"

definition Result_empty :: Result where
  "Result_empty = \<lparr>Requeue = False, RequeueAfter = 0\<rparr>"

text \<open>\<open>metav1.Time.IsZero\<close>: a nil pointer or the zero time.\<close>

definition IsZero :: "nat option \<Rightarrow> bool" where
  "IsZero t = (case t of None \<Rightarrow> True | Some n \<Rightarrow> n = 0)"

text \<open>
  Modelled from the spec: the accessors \<open>TinkID\<close> and \<open>SetTinkID\<close> of the resource types
  (package \<open>api/v1alpha1\<close>) are not among the sources. The spec describes \<open>remoteID\<close> as a
  runtime annotation holding the opaque identifier of the created remote execution,
  empty until creation succeeds.
\<close>

definition TinkID :: "Workflow \<Rightarrow> string" where
  "TinkID w = remoteID w"

definition SetTinkID :: "Workflow \<Rightarrow> string \<Rightarrow> Workflow" where
  "SetTinkID w ident = w\<lparr>remoteID := ident\<rparr>"

definition Template_TinkID :: "Template \<Rightarrow> string" where
  "Template_TinkID t = Template_remoteID t"

text \<open>
  Modelled from the spec: the constant \<open>tinkv1alpha1.WorkflowFinalizer\<close> is declared
  outside the sources; the spec calls it a well-known string token. No result below
  depends on its value.
\<close>

definition WorkflowFinalizer :: string where
  "WorkflowFinalizer = ''workflow.tinkerbell.org''"

text \<open>
  \<open>controllerutil.AddFinalizer\<close> appends the token unless it is already in the list;
  \<open>controllerutil.RemoveFinalizer\<close> deletes every occurrence of it.
\<close>

definition AddFinalizer :: "Workflow \<Rightarrow> string \<Rightarrow> Workflow" where
  "AddFinalizer w f = (if f \<in> set (Finalizers w) then w else w\<lparr>Finalizers := Finalizers w @ [f]\<rparr>)"

definition RemoveFinalizer :: "Workflow \<Rightarrow> string \<Rightarrow> Workflow" where
  "RemoveFinalizer w f = w\<lparr>Finalizers := filter (\<lambda>g. g \<noteq> f) (Finalizers w)\<rparr>"

section \<open>The collaborators\<close>

text \<open>
  The Resource Store (\<open>client.Client\<close>) and the Remote Workflow Client
  (\<open>workflowClient\<close>) are interfaces; their answers during one reconcile pass are the
  fields of an environment. A patch is given its base (the deep copy taken by
  \<open>client.MergeFrom\<close>) and the modified object. Within one pass no call is repeated
  with the same arguments, so answering by argument loses no behaviour.
\<close>

record env =
  store_get_workflow :: "NamespacedName \<Rightarrow> error + Workflow"
  store_get_hardware :: "string \<Rightarrow> error + Hardware"
  store_get_template :: "string \<Rightarrow> error + Template"
  store_patch :: "Workflow \<Rightarrow> Workflow \<Rightarrow> error option"
  store_status_patch :: "Workflow \<Rightarrow> Workflow \<Rightarrow> error option"
  wf_get :: "string \<Rightarrow> error + TinkWorkflow"
  wf_create :: "string \<Rightarrow> string \<Rightarrow> error + string"
  wf_delete :: "string \<Rightarrow> error option"
  wf_get_metadata :: "string \<Rightarrow> error + string"
  wf_get_actions :: "string \<Rightarrow> error + WorkflowAction list"
  wf_get_events :: "string \<Rightarrow> error + WorkflowActionStatus list"
  wf_get_state :: "string \<Rightarrow> error + State"

text \<open>
  What a pass does to the outside, in order: the calls on the two collaborators with
  their arguments, and the lines written by \<open>logger.Error\<close>.
\<close>

datatype event =
    StoreGetWorkflow NamespacedName
  | StoreGetHardware string
  | StoreGetTemplate string
  | StorePatch Workflow Workflow
  | StoreStatusPatch Workflow Workflow
  | WfGet string
  | WfCreate string string
  | WfDelete string
  | WfGetMetadata string
  | WfGetActions string
  | WfGetEvents string
  | WfGetState string
  | LogError error string

text \<open>The events \<open>evs\<close> happen, then the rest of the computation.\<close>

fun trace_then :: "event list \<Rightarrow> 'a \<times> event list \<Rightarrow> 'a \<times> event list" where
  "trace_then evs (r, tr) = (r, evs @ tr)"

section \<open>The reconciler\<close>

text \<open>
  Modelled from the spec: \<open>common.EnsureFinalizer\<close> (package \<open>controllers/common\<close>) is not
  among the sources. The spec: ensure the finalizer marker is present (idempotent add);
  persist before proceeding if it was missing. The result is the error of the patch or
  the object as it is afterwards.
\<close>

definition EnsureFinalizer :: "env \<Rightarrow> Workflow \<Rightarrow> string \<Rightarrow> (error + Workflow) \<times> event list" where
  "EnsureFinalizer env obj finalizer =
     (if finalizer \<in> set (Finalizers obj) then (Inr obj, [])
      else
        (let obj' = AddFinalizer obj finalizer in
         trace_then [StorePatch obj obj']
           (case store_patch env obj obj' of
              Some err \<Rightarrow> (Inl err, [])
            | None \<Rightarrow> (Inr obj', []))))"

definition createWorkflow :: "env \<Rightarrow> Workflow \<Rightarrow> (error + string) \<times> event list" where
  "createWorkflow env w =
     trace_then [StoreGetHardware (Spec_HardwareRef w)]
       (case store_get_hardware env (Spec_HardwareRef w) of
          Inl err \<Rightarrow>
            (Inl (Wrap ''failed to get hardware'' err), [LogError err ''Failed to get hardware''])
        | Inr hw \<Rightarrow>
            trace_then [StoreGetTemplate (Spec_TemplateRef w)]
              (case store_get_template env (Spec_TemplateRef w) of
                 Inl err \<Rightarrow>
                   (Inl (Wrap ''failed to get template'' err), [LogError err ''Failed to get template''])
               | Inr t \<Rightarrow>
                   trace_then [WfCreate (Template_TinkID t) (Hardware_Spec_ID hw)]
                     (case wf_create env (Template_TinkID t) (Hardware_Spec_ID hw) of
                        Inl err \<Rightarrow>
                          (Inl (Wrap ''failed to create workflow'' err),
                           [LogError err ''Failed to create workflow''])
                      | Inr ident \<Rightarrow> (Inr ident, []))))"

text \<open>
  The deferred function of \<open>reconcileStatus\<close>: on every way out the status patch is sent
  with the object as it is then; its error is logged and goes nowhere else.
\<close>

definition deferred_status_patch ::
  "env \<Rightarrow> Workflow \<Rightarrow> Workflow \<Rightarrow> error + Result \<Rightarrow> (error + Result) \<times> event list" where
  "deferred_status_patch env base w r =
     (r, StoreStatusPatch base w #
         (case store_status_patch env base w of
            Some err \<Rightarrow> [LogError err ''Failed to patch workflow status'']
          | None \<Rightarrow> []))"

definition toAction :: "WorkflowAction \<Rightarrow> Action" where
  "toAction action =
     \<lparr>Action_Name = wa_Name action,
      Action_TaskName = wa_TaskName action,
      Action_Image = wa_Image action,
      Action_Timeout = wa_Timeout action,
      Action_Command = wa_Command action,
      Action_OnTimeout = wa_OnTimeout action,
      Action_OnFailure = wa_OnFailure action,
      Action_WorkerID = wa_WorkerId action,
      Action_Volumes = wa_Volumes action,
      Action_Environment = wa_Environment action\<rparr>"

definition toEvent :: "WorkflowActionStatus \<Rightarrow> Event" where
  "toEvent ev =
     \<lparr>Event_ActionName = was_ActionName ev,
      Event_TaskName = was_TaskName ev,
      Event_ActionStatus = State_String (was_ActionStatus ev),
      Event_Seconds = was_Seconds ev,
      Event_Message = was_Message ev,
      Event_WorkerID = was_WorkerId ev,
      Event_CreatedAt = was_CreatedAt ev\<rparr>"

definition reconcileStatus :: "env \<Rightarrow> Workflow \<Rightarrow> TinkWorkflow \<Rightarrow> (error + Result) \<times> event list" where
  "reconcileStatus env w tinkWorkflow =
     (let w1 = w\<lparr>Status := (Status w)\<lparr>Status_Data := tw_Data tinkWorkflow\<rparr>\<rparr>;
          ident = tw_Id tinkWorkflow
      in
      trace_then [WfGetMetadata ident]
        (case wf_get_metadata env ident of
           Inl err \<Rightarrow>
             trace_then [LogError err ''Failed to get metadata for workflow'']
               (deferred_status_patch env w w1
                  (Inl (Wrap ''failed to get metadata for workflow'' err)))
         | Inr md \<Rightarrow>
             (let w2 = w1\<lparr>Status := (Status w1)\<lparr>Status_Metadata := md\<rparr>\<rparr> in
              trace_then [WfGetActions ident]
                (case wf_get_actions env ident of
                   Inl err \<Rightarrow>
                     trace_then [LogError err ''Failed to get actions for workflow'']
                       (deferred_status_patch env w w2
                          (Inl (Wrap ''failed to get actions for workflow'' err)))
                 | Inr actions \<Rightarrow>
                     (let w3 = w2\<lparr>Status := (Status w2)\<lparr>Status_Actions := map toAction actions\<rparr>\<rparr> in
                      trace_then [WfGetEvents ident]
                        (case wf_get_events env ident of
                           Inl err \<Rightarrow>
                             trace_then [LogError err ''Failed to get events for workflow'']
                               (deferred_status_patch env w w3
                                  (Inl (Wrap ''failed to get events for workflow'' err)))
                         | Inr events \<Rightarrow>
                             (let w4 = w3\<lparr>Status := (Status w3)\<lparr>Status_Events := map toEvent events\<rparr>\<rparr> in
                              trace_then [WfGetState ident]
                                (case wf_get_state env ident of
                                   Inl err \<Rightarrow>
                                     trace_then [LogError err ''Failed to get state for workflow'']
                                       (deferred_status_patch env w w4
                                          (Inl (Wrap ''failed to get state for workflow'' err)))
                                 | Inr state \<Rightarrow>
                                     (let w5 = w4\<lparr>Status := (Status w4)\<lparr>Status_State := State_String state\<rparr>\<rparr> in
                                      if state \<noteq> STATE_SUCCESS
                                      then deferred_status_patch env w w5
                                             (Inr \<lparr>Requeue = False, RequeueAfter = 1 * Minute\<rparr>)
                                      else deferred_status_patch env w w5 (Inr Result_empty))))))))))"

definition reconcileNormal :: "env \<Rightarrow> Workflow \<Rightarrow> (error + Result) \<times> event list" where
  "reconcileNormal env w =
     (case (if TinkID w = '''' then createWorkflow env w else (Inr (TinkID w), [])) of
        (Inl err, tr) \<Rightarrow> (Inl err, tr)
      | (Inr workflowID, tr) \<Rightarrow>
          trace_then (tr @ [WfGet workflowID])
            (case wf_get env workflowID of
               Inl err \<Rightarrow> (Inl (Wrap ''failed to get workflow'' err), [])
             | Inr tinkWorkflow \<Rightarrow>
                 (let w' = SetTinkID w workflowID in
                  trace_then [StorePatch w w']
                    (case store_patch env w w' of
                       Some err \<Rightarrow>
                         (Inl (Wrap ''failed to patch workflow'' err),
                          [LogError err ''Failed to patch workflow''])
                     | None \<Rightarrow> reconcileStatus env w' tinkWorkflow))))"

definition reconcileDelete :: "env \<Rightarrow> Workflow \<Rightarrow> (error + Result) \<times> event list" where
  "reconcileDelete env w =
     (case (if TinkID w \<noteq> ''''
            then (case wf_delete env (TinkID w) of
                    Some err \<Rightarrow>
                      if \<not> errors_Is err ErrNotFound
                      then (Some (Wrap ''failed to delete workflow from Tinkerbell'' err),
                            [WfDelete (TinkID w),
                             LogError err ''Failed to delete workflow from Tinkerbell''])
                      else (None, [WfDelete (TinkID w)])
                  | None \<Rightarrow> (None, [WfDelete (TinkID w)]))
            else (None, [])) of
        (Some err, tr) \<Rightarrow> (Inl err, tr)
      | (None, tr) \<Rightarrow>
          (let w' = RemoveFinalizer w WorkflowFinalizer in
           trace_then (tr @ [StorePatch w w'])
             (case store_patch env w w' of
                Some err \<Rightarrow>
                  (Inl (Wrap ''failed to patch workflow'' err),
                   [LogError err ''Failed to patch workflow''])
              | None \<Rightarrow> (Inr Result_empty, []))))"

definition Reconcile :: "env \<Rightarrow> NamespacedName \<Rightarrow> (error + Result) \<times> event list" where
  "Reconcile env req =
     trace_then [StoreGetWorkflow req]
       (case store_get_workflow env req of
          Inl err \<Rightarrow>
            if IsNotFound err then (Inr Result_empty, [])
            else (Inl (Wrap ''failed to get workflow'' err), [LogError err ''Failed to get workflow''])
        | Inr workflow \<Rightarrow>
            (case EnsureFinalizer env workflow WorkflowFinalizer of
               (Inl err, tr) \<Rightarrow> (Inl (Wrap ''failed to ensure finalizer on workflow'' err), tr)
             | (Inr workflow', tr) \<Rightarrow>
                 trace_then tr
                   (if \<not> IsZero (DeletionTimestamp workflow')
                    then reconcileDelete env workflow'
                    else reconcileNormal env workflow')))"

section \<open>The MAC generator of the test utilities\<close>

type_synonym byte = "8 word"

text \<open>
  \<open>crypto/rand\<close> as a source: the bytes it hands out, in order, and whether the k-th
  call of \<open>rand.Read\<close> fails. A successful read of six bytes by the k-th call takes
  bytes \<open>6k\<close> to \<open>6k+5\<close> of the source.
\<close>

record rand_source =
  rand_bytes :: "nat \<Rightarrow> byte"
  rand_error :: "nat \<Rightarrow> error option"

definition rand_Read :: "rand_source \<Rightarrow> nat \<Rightarrow> nat \<Rightarrow> error + byte list" where
  "rand_Read rnd k n =
     (case rand_error rnd k of
        Some err \<Rightarrow> Inl err
      | None \<Rightarrow> Inr (map (rand_bytes rnd) [n * k ..< n * k + n]))"

definition hexDigit :: string where
  "hexDigit = ''0123456789abcdef''"

text \<open>\<open>net.HardwareAddr.String\<close>: two hexadecimal digits for each byte, colons between.\<close>

fun HardwareAddr_String_loop :: "nat \<Rightarrow> byte list \<Rightarrow> string" where
  "HardwareAddr_String_loop i [] = []"
| "HardwareAddr_String_loop i (b # bs) =
     (if i > 0 then '':'' else []) @
     [hexDigit ! unat (drop_bit 4 b), hexDigit ! unat (b AND 0xF)] @
     HardwareAddr_String_loop (Suc i) bs"

definition HardwareAddr_String :: "byte list \<Rightarrow> string" where
  "HardwareAddr_String a = (if length a = 0 then [] else HardwareAddr_String_loop 0 a)"

record macGenerator =
  addresses :: "string set"

text \<open>
  \<open>macGenerator.Get\<close>, with the generator and the number of reads made so far as
  state. The loop has no bound: it ends when a read fails or a fresh address comes up.
\<close>

partial_function (option) Get ::
  "rand_source \<Rightarrow> macGenerator \<Rightarrow> nat \<Rightarrow> ((error + string) \<times> macGenerator \<times> nat) option" where
  "Get rnd m k =
     (case rand_Read rnd k 6 of
        Inl err \<Rightarrow> Some (Inl (Wrap ''failed to generate random mac'' err), m, Suc k)
      | Inr mac0 \<Rightarrow>
          (let mac1 = mac0[0 := (mac0 ! 0) AND NOT 1];
               mac2 = mac1[0 := (mac1 ! 0) OR 2];
               key = HardwareAddr_String mac2
           in if key \<notin> addresses m
              then Some (Inr key, m\<lparr>addresses := insert key (addresses m)\<rparr>, Suc k)
              else Get rnd m (Suc k)))"

declare Get.simps [code]

text \<open>A client that calls \<open>Get\<close> on the same generator \<open>n\<close> times, one call after the other.\<close>

fun Get_calls ::
  "rand_source \<Rightarrow> nat \<Rightarrow> macGenerator \<Rightarrow> nat \<Rightarrow> ((error + string) list \<times> macGenerator \<times> nat) option" where
  "Get_calls rnd 0 m k = Some ([], m, k)"
| "Get_calls rnd (Suc n) m k =
     (case Get rnd m k of
        None \<Rightarrow> None
      | Some (r, m', k') \<Rightarrow>
          (case Get_calls rnd n m' k' of
             None \<Rightarrow> None
           | Some (rs, m'', k'') \<Rightarrow> Some (r # rs, m'', k'')))"

text \<open>The addresses among the results of a sequence of calls, in the order of the calls.\<close>

fun returned_keys :: "(error + string) list \<Rightarrow> string list" where
  "returned_keys [] = []"
| "returned_keys (Inl err # rs) = returned_keys rs"
| "returned_keys (Inr key # rs) = key # returned_keys rs"

section \<open>Concrete inputs\<close>

text \<open>
  The scenario of the spec: resource \<open>wf-1\<close> refers to hardware \<open>hw-1\<close> (external id
  \<open>H1\<close>) and template \<open>tpl-1\<close> (external id \<open>T1\<close>); the remote service creates the
  execution \<open>R1\<close>, which is running.
\<close>

definition status0 :: WorkflowStatus where
  "status0 = \<lparr>Status_State = [], Status_Data = [], Status_Metadata = [],
              Status_Actions = [], Status_Events = []\<rparr>"

definition wf1 :: Workflow where
  "wf1 = \<lparr>Name = ''wf-1'', DeletionTimestamp = None, Finalizers = [WorkflowFinalizer],
          remoteID = [], Spec_HardwareRef = ''hw-1'', Spec_TemplateRef = ''tpl-1'',
          Status = status0\<rparr>"

definition req1 :: NamespacedName where
  "req1 = \<lparr>Namespace = ''default'', req_Name = ''wf-1''\<rparr>"

definition req_gone :: NamespacedName where
  "req_gone = \<lparr>Namespace = ''default'', req_Name = ''wf-0''\<rparr>"

definition action1 :: WorkflowAction where
  "action1 = \<lparr>wa_Name = ''hello_world'', wa_TaskName = ''hello world'', wa_Image = ''hello-world'',
              wa_Timeout = 60, wa_Command = [], wa_OnTimeout = [], wa_OnFailure = [],
              wa_WorkerId = ''H1'', wa_Volumes = [], wa_Environment = []\<rparr>"

definition event1 :: WorkflowActionStatus where
  "event1 = \<lparr>was_ActionName = ''hello_world'', was_TaskName = ''hello world'',
             was_ActionStatus = STATE_RUNNING, was_Seconds = 0, was_Message = ''started'',
             was_WorkerId = ''H1'', was_CreatedAt = 1600000000\<rparr>"

definition env1 :: env where
  "env1 =
     \<lparr>store_get_workflow = (\<lambda>r. if r = req1 then Inr wf1 else Inl ApiNotFound),
      store_get_hardware = (\<lambda>n. if n = ''hw-1'' then Inr \<lparr>Hardware_Spec_ID = ''H1''\<rparr> else Inl ApiNotFound),
      store_get_template = (\<lambda>n. if n = ''tpl-1'' then Inr \<lparr>Template_remoteID = ''T1''\<rparr> else Inl ApiNotFound),
      store_patch = (\<lambda>base obj. None),
      store_status_patch = (\<lambda>base obj. None),
      wf_get = (\<lambda>i. if i = ''R1'' then Inr \<lparr>tw_Id = ''R1'', tw_Data = ''payload''\<rparr> else Inl ErrNotFound),
      wf_create = (\<lambda>t h. if t = ''T1'' \<and> h = ''H1'' then Inr ''R1'' else Inl (Failure ''rejected'')),
      wf_delete = (\<lambda>i. if i = ''R1'' then None else Some ErrNotFound),
      wf_get_metadata = (\<lambda>i. if i = ''R1'' then Inr ''meta'' else Inl ErrNotFound),
      wf_get_actions = (\<lambda>i. if i = ''R1'' then Inr [action1] else Inl ErrNotFound),
      wf_get_events = (\<lambda>i. if i = ''R1'' then Inr [event1] else Inl ErrNotFound),
      wf_get_state = (\<lambda>i. if i = ''R1'' then Inr STATE_RUNNING else Inl ErrNotFound)\<rparr>"

text \<open>
  A random source whose first two reads give the same six bytes \<open>ff\<close>, and whose
  later bytes count upwards.
\<close>

definition rnd1 :: rand_source where
  "rnd1 = \<lparr>rand_bytes = (\<lambda>i. if i < 12 then 0xFF else word_of_nat i), rand_error = (\<lambda>k. None)\<rparr>"

definition wf1_created :: Workflow where
  "wf1_created = wf1\<lparr>remoteID := ''R1''\<rparr>"

definition wf1_deleting :: Workflow where
  "wf1_deleting = wf1_created\<lparr>DeletionTimestamp := Some 1600000100\<rparr>"

definition tw1 :: TinkWorkflow where
  "tw1 = \<lparr>tw_Id = ''R1'', tw_Data = ''payload''\<rparr>"

text \<open>
  The second scenario of the spec: \<open>R1\<close> is recorded on the resource and the remote
  execution has finished with success.
\<close>

definition env_done :: env where
  "env_done = env1\<lparr>store_get_workflow := (\<lambda>r. if r = req1 then Inr wf1_created else Inl ApiNotFound),
                    wf_get_state := (\<lambda>i. if i = ''R1'' then Inr STATE_SUCCESS else Inl ErrNotFound)\<rparr>"

section \<open>The ways through the status sync\<close>

lemma rs_metadata_fails:
  assumes "wf_get_metadata env (tw_Id tw) = Inl e"
  shows "reconcileStatus env w tw =
    (Inl (Wrap ''failed to get metadata for workflow'' e),
     [WfGetMetadata (tw_Id tw), LogError e ''Failed to get metadata for workflow'',
      StoreStatusPatch w (w\<lparr>Status := (Status w)\<lparr>Status_Data := tw_Data tw\<rparr>\<rparr>)] @
     (case store_status_patch env w (w\<lparr>Status := (Status w)\<lparr>Status_Data := tw_Data tw\<rparr>\<rparr>) of
        Some err \<Rightarrow> [LogError err ''Failed to patch workflow status''] | None \<Rightarrow> []))"
  using assms by (simp add: reconcileStatus_def deferred_status_patch_def Let_def)

lemma rs_actions_fail:
  assumes "wf_get_metadata env (tw_Id tw) = Inr md" "wf_get_actions env (tw_Id tw) = Inl e"
  shows "reconcileStatus env w tw =
    (Inl (Wrap ''failed to get actions for workflow'' e),
     [WfGetMetadata (tw_Id tw), WfGetActions (tw_Id tw), LogError e ''Failed to get actions for workflow'',
      StoreStatusPatch w (w\<lparr>Status := (Status w)\<lparr>Status_Data := tw_Data tw, Status_Metadata := md\<rparr>\<rparr>)] @
     (case store_status_patch env w (w\<lparr>Status := (Status w)\<lparr>Status_Data := tw_Data tw, Status_Metadata := md\<rparr>\<rparr>) of
        Some err \<Rightarrow> [LogError err ''Failed to patch workflow status''] | None \<Rightarrow> []))"
  using assms by (simp add: reconcileStatus_def deferred_status_patch_def Let_def)

lemma rs_events_fail:
  assumes "wf_get_metadata env (tw_Id tw) = Inr md" "wf_get_actions env (tw_Id tw) = Inr acts"
    "wf_get_events env (tw_Id tw) = Inl e"
  shows "reconcileStatus env w tw =
    (Inl (Wrap ''failed to get events for workflow'' e),
     [WfGetMetadata (tw_Id tw), WfGetActions (tw_Id tw), WfGetEvents (tw_Id tw),
      LogError e ''Failed to get events for workflow'',
      StoreStatusPatch w (w\<lparr>Status := (Status w)\<lparr>Status_Data := tw_Data tw, Status_Metadata := md,
         Status_Actions := map toAction acts\<rparr>\<rparr>)] @
     (case store_status_patch env w (w\<lparr>Status := (Status w)\<lparr>Status_Data := tw_Data tw, Status_Metadata := md,
         Status_Actions := map toAction acts\<rparr>\<rparr>) of
        Some err \<Rightarrow> [LogError err ''Failed to patch workflow status''] | None \<Rightarrow> []))"
  using assms by (simp add: reconcileStatus_def deferred_status_patch_def Let_def)

lemma rs_state_fails:
  assumes "wf_get_metadata env (tw_Id tw) = Inr md" "wf_get_actions env (tw_Id tw) = Inr acts"
    "wf_get_events env (tw_Id tw) = Inr evs" "wf_get_state env (tw_Id tw) = Inl e"
  shows "reconcileStatus env w tw =
    (Inl (Wrap ''failed to get state for workflow'' e),
     [WfGetMetadata (tw_Id tw), WfGetActions (tw_Id tw), WfGetEvents (tw_Id tw), WfGetState (tw_Id tw),
      LogError e ''Failed to get state for workflow'',
      StoreStatusPatch w (w\<lparr>Status := (Status w)\<lparr>Status_Data := tw_Data tw, Status_Metadata := md,
         Status_Actions := map toAction acts, Status_Events := map toEvent evs\<rparr>\<rparr>)] @
     (case store_status_patch env w (w\<lparr>Status := (Status w)\<lparr>Status_Data := tw_Data tw, Status_Metadata := md,
         Status_Actions := map toAction acts, Status_Events := map toEvent evs\<rparr>\<rparr>) of
        Some err \<Rightarrow> [LogError err ''Failed to patch workflow status''] | None \<Rightarrow> []))"
  using assms by (simp add: reconcileStatus_def deferred_status_patch_def Let_def)

lemma rs_all_fetched:
  assumes "wf_get_metadata env (tw_Id tw) = Inr md" "wf_get_actions env (tw_Id tw) = Inr acts"
    "wf_get_events env (tw_Id tw) = Inr evs" "wf_get_state env (tw_Id tw) = Inr state"
  shows "reconcileStatus env w tw =
    (Inr (if state \<noteq> STATE_SUCCESS then \<lparr>Requeue = False, RequeueAfter = 60000000000\<rparr>
          else \<lparr>Requeue = False, RequeueAfter = 0\<rparr>),
     [WfGetMetadata (tw_Id tw), WfGetActions (tw_Id tw), WfGetEvents (tw_Id tw), WfGetState (tw_Id tw),
      StoreStatusPatch w (w\<lparr>Status := (Status w)\<lparr>Status_Data := tw_Data tw, Status_Metadata := md,
         Status_Actions := map toAction acts, Status_Events := map toEvent evs,
         Status_State := State_String state\<rparr>\<rparr>)] @
     (case store_status_patch env w (w\<lparr>Status := (Status w)\<lparr>Status_Data := tw_Data tw, Status_Metadata := md,
         Status_Actions := map toAction acts, Status_Events := map toEvent evs,
         Status_State := State_String state\<rparr>\<rparr>) of
        Some err \<Rightarrow> [LogError err ''Failed to patch workflow status''] | None \<Rightarrow> []))"
  using assms
  by (simp add: reconcileStatus_def deferred_status_patch_def Let_def Minute_def Second_def Result_empty_def)

lemma toAction_fields:
  "toAction = (\<lambda>a. \<lparr>Action_Name = wa_Name a, Action_TaskName = wa_TaskName a,
                           Action_Image = wa_Image a, Action_Timeout = wa_Timeout a,
                           Action_Command = wa_Command a, Action_OnTimeout = wa_OnTimeout a,
                           Action_OnFailure = wa_OnFailure a, Action_WorkerID = wa_WorkerId a,
                           Action_Volumes = wa_Volumes a, Action_Environment = wa_Environment a\<rparr>)"
  by (rule ext) (simp add: toAction_def)

lemma toEvent_fields:
  "toEvent = (\<lambda>e. \<lparr>Event_ActionName = was_ActionName e, Event_TaskName = was_TaskName e,
                          Event_ActionStatus = State_String (was_ActionStatus e),
                          Event_Seconds = was_Seconds e, Event_Message = was_Message e,
                          Event_WorkerID = was_WorkerId e, Event_CreatedAt = was_CreatedAt e\<rparr>)"
  by (rule ext) (simp add: toEvent_def)

section \<open>Where Create can be called\<close>

lemma reconcileNormal_no_create:
  "TinkID w \<noteq> [] \<Longrightarrow> WfCreate t h \<notin> set (snd (reconcileNormal env w))"
  by (simp add: reconcileNormal_def reconcileStatus_def deferred_status_patch_def Let_def split: sum.splits option.splits prod.splits)

lemma reconcileDelete_no_create:
  "WfCreate t h \<notin> set (snd (reconcileDelete env w))"
  by (simp add: reconcileDelete_def Let_def split: sum.splits option.splits prod.splits)

lemma EnsureFinalizer_no_create:
  "WfCreate t h \<notin> set (snd (EnsureFinalizer env w f))"
  by (simp add: EnsureFinalizer_def Let_def split: sum.splits option.splits prod.splits)

lemma EnsureFinalizer_TinkID:
  "EnsureFinalizer env w f = (Inr w', tr) \<Longrightarrow> TinkID w' = TinkID w"
  by (auto simp add: EnsureFinalizer_def Let_def TinkID_def AddFinalizer_def split: sum.splits option.splits prod.splits if_splits)

lemma split_after_prefix:
  "xs @ ys = pre @ c # post \<Longrightarrow> c \<notin> set xs \<Longrightarrow> \<exists>pre'. pre = xs @ pre' \<and> ys = pre' @ c # post"
proof (induction xs arbitrary: pre)
  case Nil
  then show ?case by simp
next
  case (Cons x xs)
  then show ?case by (cases pre) auto
qed

lemma Reconcile_trace_shape:
  assumes "WfCreate t h \<in> set (snd (Reconcile env req))"
  shows "\<exists>w w' tr. store_get_workflow env req = Inr w \<and>
           EnsureFinalizer env w WorkflowFinalizer = (Inr w', tr) \<and>
           snd (Reconcile env req) = (StoreGetWorkflow req # tr) @ snd (reconcileNormal env w')"
proof (cases "store_get_workflow env req")
  case (Inl err)
  with assms show ?thesis by (simp add: Reconcile_def split: if_splits)
next
  case (Inr w)
  obtain r tr where e: "EnsureFinalizer env w WorkflowFinalizer = (r, tr)"
    by (cases "EnsureFinalizer env w WorkflowFinalizer")
  have tr: "WfCreate t h \<notin> set tr"
    using e by (auto simp add: EnsureFinalizer_def Let_def split: if_splits option.splits)
  show ?thesis
  proof (cases r)
    case (Inl err)
    with assms Inr e tr show ?thesis by (simp add: Reconcile_def)
  next
    case r: (Inr w')
    obtain r1 t1 where n: "reconcileNormal env w' = (r1, t1)" by (cases "reconcileNormal env w'")
    obtain r2 t2 where d: "reconcileDelete env w' = (r2, t2)" by (cases "reconcileDelete env w'")
    from d have "WfCreate t h \<notin> set t2"
      using reconcileDelete_no_create [of t h env w'] by simp
    with assms Inr e r tr n d show ?thesis
      by (simp add: Reconcile_def split: if_splits)
  qed
qed

lemma EnsureFinalizer_persisted:
  assumes "EnsureFinalizer env w f = (Inr w', tr)"
  shows "f \<in> set (Finalizers w') \<and>
         (f \<in> set (Finalizers w) \<or>
          (StorePatch w (AddFinalizer w f) \<in> set tr \<and> store_patch env w (AddFinalizer w f) = None))"
  using assms
  by (auto simp add: EnsureFinalizer_def Let_def AddFinalizer_def split: if_splits option.splits)

section \<open>Successful passes\<close>

lemma reconcileStatus_success:
  assumes "reconcileStatus env w tw = (Inr res, tr)"
  shows "\<exists>state. wf_get_state env (tw_Id tw) = Inr state \<and> WfGetState (tw_Id tw) \<in> set tr \<and>
           res = (if state \<noteq> STATE_SUCCESS then \<lparr>Requeue = False, RequeueAfter = 60000000000\<rparr>
                  else \<lparr>Requeue = False, RequeueAfter = 0\<rparr>)"
proof (cases "wf_get_metadata env (tw_Id tw)")
  case (Inl e)
  from rs_metadata_fails [OF this, of w] assms show ?thesis by simp
next
  case md: (Inr md)
  show ?thesis
  proof (cases "wf_get_actions env (tw_Id tw)")
    case (Inl e)
    from rs_actions_fail [OF md this, of w] assms show ?thesis by simp
  next
    case acts: (Inr acts)
    show ?thesis
    proof (cases "wf_get_events env (tw_Id tw)")
      case (Inl e)
      from rs_events_fail [OF md acts this, of w] assms show ?thesis by simp
    next
      case evs: (Inr evs)
      show ?thesis
      proof (cases "wf_get_state env (tw_Id tw)")
        case (Inl e)
        from rs_state_fails [OF md acts evs this, of w] assms show ?thesis by simp
      next
        case (Inr state)
        from rs_all_fetched [OF md acts evs this, of w] assms have
          "res = (if state \<noteq> STATE_SUCCESS then \<lparr>Requeue = False, RequeueAfter = 60000000000\<rparr>
                  else \<lparr>Requeue = False, RequeueAfter = 0\<rparr>)"
          and "WfGetState (tw_Id tw) \<in> set tr"
          by auto
        with Inr show ?thesis by blast
      qed
    qed
  qed
qed

lemma reconcileNormal_success:
  assumes "reconcileNormal env w = (Inr res, tr)"
  shows "\<exists>wid tw state. WfGet wid \<in> set tr \<and> wf_get env wid = Inr tw \<and>
           WfGetState (tw_Id tw) \<in> set tr \<and> wf_get_state env (tw_Id tw) = Inr state \<and>
           res = (if state \<noteq> STATE_SUCCESS then \<lparr>Requeue = False, RequeueAfter = 60000000000\<rparr>
                  else \<lparr>Requeue = False, RequeueAfter = 0\<rparr>)"
proof -
  obtain c tc where c: "(if TinkID w = [] then createWorkflow env w else (Inr (TinkID w), [])) = (c, tc)"
    by (cases "if TinkID w = [] then createWorkflow env w else (Inr (TinkID w), [])")
  show ?thesis
  proof (cases c)
    case (Inl err)
    with assms c show ?thesis by (simp add: reconcileNormal_def)
  next
    case (Inr wid)
    show ?thesis
    proof (cases "wf_get env wid")
      case (Inl err)
      with assms c Inr show ?thesis by (simp add: reconcileNormal_def)
    next
      case tw: (Inr tw)
      show ?thesis
      proof (cases "store_patch env w (SetTinkID w wid)")
        case (Some err)
        with assms c Inr tw show ?thesis by (simp add: reconcileNormal_def Let_def)
      next
        case None
        obtain r1 t1 where s: "reconcileStatus env (SetTinkID w wid) tw = (r1, t1)"
          by (cases "reconcileStatus env (SetTinkID w wid) tw")
        with assms c Inr tw None have r1: "r1 = Inr res"
          and tr: "tr = (tc @ [WfGet wid]) @ StorePatch w (SetTinkID w wid) # t1"
          by (simp_all add: reconcileNormal_def Let_def)
        from s r1 reconcileStatus_success [of env "SetTinkID w wid" tw res t1]
        obtain state where "wf_get_state env (tw_Id tw) = Inr state" "WfGetState (tw_Id tw) \<in> set t1"
          "res = (if state \<noteq> STATE_SUCCESS then \<lparr>Requeue = False, RequeueAfter = 60000000000\<rparr>
                  else \<lparr>Requeue = False, RequeueAfter = 0\<rparr>)"
          by auto
        with tr tw show ?thesis by auto
      qed
    qed
  qed
qed

lemma EnsureFinalizer_DeletionTimestamp:
  "EnsureFinalizer env w f = (Inr w', tr) \<Longrightarrow> DeletionTimestamp w' = DeletionTimestamp w"
  by (auto simp add: EnsureFinalizer_def Let_def AddFinalizer_def split: if_splits option.splits)

section \<open>The result of a pass and the status patch\<close>

lemma fst_trace_then: "fst (trace_then evs p) = fst p"
  by (cases p) simp

lemma reconcileStatus_result_without_patch:
  "fst (reconcileStatus (env\<lparr>store_status_patch := f\<rparr>) w tw) = fst (reconcileStatus env w tw)"
  by (simp add: reconcileStatus_def deferred_status_patch_def Let_def fst_trace_then split: sum.splits)

lemma createWorkflow_without_patch:
  "createWorkflow (env\<lparr>store_status_patch := f\<rparr>) w = createWorkflow env w"
  by (simp add: createWorkflow_def split: sum.splits)

lemma reconcileNormal_result_without_patch:
  "fst (reconcileNormal (env\<lparr>store_status_patch := f\<rparr>) w) = fst (reconcileNormal env w)"
  by (simp add: reconcileNormal_def createWorkflow_without_patch reconcileStatus_result_without_patch
        Let_def fst_trace_then split: sum.splits option.splits prod.splits)

lemma reconcileDelete_without_patch:
  "reconcileDelete (env\<lparr>store_status_patch := f\<rparr>) w = reconcileDelete env w"
  by (simp add: reconcileDelete_def Let_def split: option.splits prod.splits)

lemma EnsureFinalizer_without_patch:
  "EnsureFinalizer (env\<lparr>store_status_patch := f\<rparr>) w g = EnsureFinalizer env w g"
  by (simp add: EnsureFinalizer_def Let_def split: option.splits)

lemma Reconcile_result_without_patch:
  "fst (Reconcile (env\<lparr>store_status_patch := f\<rparr>) req) = fst (Reconcile env req)"
  by (simp add: Reconcile_def EnsureFinalizer_without_patch reconcileDelete_without_patch
        reconcileNormal_result_without_patch fst_trace_then split: sum.splits prod.splits)

lemmas reconcile_unfold = Reconcile_def EnsureFinalizer_def reconcileNormal_def reconcileDelete_def
  createWorkflow_def reconcileStatus_def deferred_status_patch_def TinkID_def SetTinkID_def
  Template_TinkID_def AddFinalizer_def RemoveFinalizer_def IsZero_def Let_def

lemmas scenario_unfold = env1_def wf1_def req1_def status0_def wf1_created_def wf1_deleting_def tw1_def
  action1_def event1_def

section \<open>Passes that end without error\<close>

lemma Reconcile_success_fetched_state:
  assumes "store_get_workflow env req = Inr w"
    and "IsZero (DeletionTimestamp w)"
    and "Reconcile env req = (Inr res, tr)"
  shows "\<exists>wid tw state. WfGet wid \<in> set tr \<and> wf_get env wid = Inr tw \<and>
           WfGetState (tw_Id tw) \<in> set tr \<and> wf_get_state env (tw_Id tw) = Inr state \<and>
           res = (if state \<noteq> STATE_SUCCESS then \<lparr>Requeue = False, RequeueAfter = 60000000000\<rparr>
                  else \<lparr>Requeue = False, RequeueAfter = 0\<rparr>)"
proof -
  obtain r te where e: "EnsureFinalizer env w WorkflowFinalizer = (r, te)"
    by (cases "EnsureFinalizer env w WorkflowFinalizer")
  show ?thesis
  proof (cases r)
    case (Inl err)
    with assms e show ?thesis by (simp add: Reconcile_def)
  next
    case (Inr w')
    with e have "DeletionTimestamp w' = DeletionTimestamp w"
      by (simp add: EnsureFinalizer_DeletionTimestamp)
    with assms have z: "IsZero (DeletionTimestamp w')" by simp
    obtain r1 t1 where n: "reconcileNormal env w' = (r1, t1)" by (cases "reconcileNormal env w'")
    with assms e Inr z have r1: "r1 = Inr res" and tr: "tr = StoreGetWorkflow req # te @ t1"
      by (simp_all add: Reconcile_def)
    from reconcileNormal_success [of env w' res t1] n r1
    obtain wid tw state where "WfGet wid \<in> set t1" "wf_get env wid = Inr tw"
      "WfGetState (tw_Id tw) \<in> set t1" "wf_get_state env (tw_Id tw) = Inr state"
      "res = (if state \<noteq> STATE_SUCCESS then \<lparr>Requeue = False, RequeueAfter = 60000000000\<rparr>
                  else \<lparr>Requeue = False, RequeueAfter = 0\<rparr>)"
      by blast
    with tr show ?thesis by auto
  qed
qed

lemma Reconcile_all_succeed:
  assumes load: "store_get_workflow env req = Inr w"
    and live: "IsZero (DeletionTimestamp w)"
    and fin: "EnsureFinalizer env w WorkflowFinalizer = (Inr w', te)"
    and ident: "(if TinkID w' = [] then createWorkflow env w' else (Inr (TinkID w'), [])) = (Inr wid, tc)"
    and get: "wf_get env wid = Inr tw"
    and patch: "store_patch env w' (SetTinkID w' wid) = None"
    and md: "wf_get_metadata env (tw_Id tw) = Inr md"
    and acts: "wf_get_actions env (tw_Id tw) = Inr acts"
    and evs: "wf_get_events env (tw_Id tw) = Inr evs"
    and st: "wf_get_state env (tw_Id tw) = Inr state"
  shows "fst (Reconcile env req) =
           Inr (if state \<noteq> STATE_SUCCESS then \<lparr>Requeue = False, RequeueAfter = 60000000000\<rparr>
                else \<lparr>Requeue = False, RequeueAfter = 0\<rparr>)"
proof -
  from fin have "DeletionTimestamp w' = DeletionTimestamp w"
    by (rule EnsureFinalizer_DeletionTimestamp)
  with live have z: "IsZero (DeletionTimestamp w')" by simp
  have s: "fst (reconcileStatus env (SetTinkID w' wid) tw) =
           Inr (if state \<noteq> STATE_SUCCESS then \<lparr>Requeue = False, RequeueAfter = 60000000000\<rparr>
                else \<lparr>Requeue = False, RequeueAfter = 0\<rparr>)"
    using rs_all_fetched [OF md acts evs st, of "SetTinkID w' wid"] by simp
  have n: "fst (reconcileNormal env w') = fst (reconcileStatus env (SetTinkID w' wid) tw)"
    using ident get patch by (simp add: reconcileNormal_def Let_def fst_trace_then)
  have "fst (Reconcile env req) = fst (reconcileNormal env w')"
    using load fin z by (simp add: Reconcile_def fst_trace_then)
  with n s show ?thesis by simp
qed

section \<open>Results of the MAC generator\<close>

lemma rand_Read_length: "rand_Read rnd k n = Inr mac \<Longrightarrow> length mac = n"
  by (auto simp add: rand_Read_def split: option.splits)

lemma masked_first_octet:
  fixes mac0 :: "byte list"
  assumes "length mac0 = 6"
  shows "length ((mac0[0 := mac0 ! 0 AND NOT 1])[0 := (mac0[0 := mac0 ! 0 AND NOT 1]) ! 0 OR 2]) = 6 \<and>
         \<not> bit (((mac0[0 := mac0 ! 0 AND NOT 1])[0 := (mac0[0 := mac0 ! 0 AND NOT 1]) ! 0 OR 2]) ! 0) 0 \<and>
         bit (((mac0[0 := mac0 ! 0 AND NOT 1])[0 := (mac0[0 := mac0 ! 0 AND NOT 1]) ! 0 OR 2]) ! 0) 1"
  using assms by (simp add: bit_simps)

lemma Get_sound:
  assumes "Get rnd m k = Some y"
  shows "case y of
           (Inl err, m', k') \<Rightarrow> m' = m
         | (Inr key, m', k') \<Rightarrow>
             key \<notin> addresses m \<and> addresses m' = insert key (addresses m) \<and>
             (\<exists>mac. length mac = 6 \<and> key = HardwareAddr_String mac \<and>
                    \<not> bit (mac ! 0) 0 \<and> bit (mac ! 0) 1)"
proof (rule Get.raw_induct [where P = "\<lambda>rnd m k y. case y of
           (Inl err, m', k') \<Rightarrow> m' = m
         | (Inr key, m', k') \<Rightarrow>
             key \<notin> addresses m \<and> addresses m' = insert key (addresses m) \<and>
             (\<exists>mac. length mac = 6 \<and> key = HardwareAddr_String mac \<and>
                    \<not> bit (mac ! 0) 0 \<and> bit (mac ! 0) 1)", OF _ assms])
  fix G :: "rand_source \<Rightarrow> macGenerator \<Rightarrow> nat \<Rightarrow> ((error + string) \<times> macGenerator \<times> nat) option"
    and rnd m k y
  assume ih: "\<And>rnd m k y. G rnd m k = Some y \<Longrightarrow> case y of
           (Inl err, m', k') \<Rightarrow> m' = m
         | (Inr key, m', k') \<Rightarrow>
             key \<notin> addresses m \<and> addresses m' = insert key (addresses m) \<and>
             (\<exists>mac. length mac = 6 \<and> key = HardwareAddr_String mac \<and>
                    \<not> bit (mac ! 0) 0 \<and> bit (mac ! 0) 1)"
    and step: "(case rand_Read rnd k 6 of
        Inl err \<Rightarrow> Some (Inl (Wrap ''failed to generate random mac'' err), m, Suc k)
      | Inr mac0 \<Rightarrow>
          (let mac1 = mac0[0 := (mac0 ! 0) AND NOT 1];
               mac2 = mac1[0 := (mac1 ! 0) OR 2];
               key = HardwareAddr_String mac2
           in if key \<notin> addresses m
              then Some (Inr key, m\<lparr>addresses := insert key (addresses m)\<rparr>, Suc k)
              else G rnd m (Suc k))) = Some y"
  show "case y of
           (Inl err, m', k') \<Rightarrow> m' = m
         | (Inr key, m', k') \<Rightarrow>
             key \<notin> addresses m \<and> addresses m' = insert key (addresses m) \<and>
             (\<exists>mac. length mac = 6 \<and> key = HardwareAddr_String mac \<and>
                    \<not> bit (mac ! 0) 0 \<and> bit (mac ! 0) 1)"
  proof (cases "rand_Read rnd k 6")
    case (Inl err)
    with step show ?thesis by auto
  next
    case (Inr mac0)
    then have len: "length mac0 = 6" by (rule rand_Read_length)
    let ?mac2 = "(mac0[0 := mac0 ! 0 AND NOT 1])[0 := (mac0[0 := mac0 ! 0 AND NOT 1]) ! 0 OR 2]"
    show ?thesis
    proof (cases "HardwareAddr_String ?mac2 \<in> addresses m")
      case True
      with step Inr have "G rnd m (Suc k) = Some y" by (simp add: Let_def)
      then show ?thesis by (rule ih)
    next
      case False
      with step Inr have y: "y = (Inr (HardwareAddr_String ?mac2),
          m\<lparr>addresses := insert (HardwareAddr_String ?mac2) (addresses m)\<rparr>, Suc k)"
        by (simp add: Let_def)
      from masked_first_octet [OF len]
      have good: "\<exists>mac. length mac = 6 \<and> HardwareAddr_String ?mac2 = HardwareAddr_String mac \<and>
                    \<not> bit (mac ! 0) 0 \<and> bit (mac ! 0) 1"
        by blast
      from False good show ?thesis
        unfolding y by simp
    qed
  qed
qed

section \<open>Loading the resource\<close>

text \<open>
  C8. When the load of the resource fails with Not-Found, Reconcile returns the empty
  result and no error, and the load is the only call of the pass; when the load fails
  with any other error, Reconcile returns that error, wrapped, after logging it, and
  again makes no other call.
\<close>

theorem Reconcile_load_failure:
  assumes "store_get_workflow env req = Inl err"
  shows "Reconcile env req =
           (if IsNotFound err then (Inr Result_empty, [StoreGetWorkflow req])
            else (Inl (Wrap ''failed to get workflow'' err),
                  [StoreGetWorkflow req, LogError err ''Failed to get workflow'']))"
  using assms by (simp add: Reconcile_def)

theorem Reconcile_load_failure_witness:
  "store_get_workflow env1 req_gone = Inl ApiNotFound \<and>
   Reconcile env1 req_gone = (Inr Result_empty, [StoreGetWorkflow req_gone]) \<and>
   store_get_workflow (env1\<lparr>store_get_workflow := \<lambda>r. Inl (Failure ''timeout'')\<rparr>) req1
     = Inl (Failure ''timeout'') \<and>
   Reconcile (env1\<lparr>store_get_workflow := \<lambda>r. Inl (Failure ''timeout'')\<rparr>) req1 =
     (Inl (Wrap ''failed to get workflow'' (Failure ''timeout'')),
      [StoreGetWorkflow req1, LogError (Failure ''timeout'') ''Failed to get workflow''])"
proof -
  have a: "store_get_workflow env1 req_gone = Inl ApiNotFound"
    by (simp add: env1_def req_gone_def req1_def)
  have b: "store_get_workflow (env1\<lparr>store_get_workflow := \<lambda>r. Inl (Failure ''timeout'')\<rparr>) req1
             = Inl (Failure ''timeout'')"
    by simp
  show ?thesis
    using a b Reconcile_load_failure [OF a] Reconcile_load_failure [OF b] by simp
qed

section \<open>Idempotent creation\<close>

text \<open>
  C2. When the resource loaded at the start of a pass has a non-empty \<open>remoteID\<close>,
  the pass makes no Create call on the Remote Workflow Client, whatever the collaborators
  answer (so for every state of the remote execution).
\<close>

theorem Reconcile_remoteID_set_no_Create:
  assumes "store_get_workflow env req = Inr w" and "TinkID w \<noteq> []"
  shows "WfCreate t h \<notin> set (snd (Reconcile env req))"
proof (cases "EnsureFinalizer env w WorkflowFinalizer")
  case (Pair r tr)
  have tr: "WfCreate t h \<notin> set tr"
    using EnsureFinalizer_no_create [of t h env w WorkflowFinalizer] Pair by simp
  show ?thesis
  proof (cases r)
    case (Inl err)
    with Pair tr assms show ?thesis by (simp add: Reconcile_def)
  next
    case (Inr w')
    with Pair have "TinkID w' = TinkID w" by (simp add: EnsureFinalizer_TinkID)
    with assms have id: "TinkID w' \<noteq> []" by simp
    obtain r1 t1 where n: "reconcileNormal env w' = (r1, t1)" by (cases "reconcileNormal env w'")
    obtain r2 t2 where d: "reconcileDelete env w' = (r2, t2)" by (cases "reconcileDelete env w'")
    from n id have "WfCreate t h \<notin> set t1"
      using reconcileNormal_no_create [of w' t h env] by simp
    moreover from d have "WfCreate t h \<notin> set t2"
      using reconcileDelete_no_create [of t h env w'] by simp
    ultimately show ?thesis
      using Pair Inr tr assms n d by (simp add: Reconcile_def)
  qed
qed

theorem Reconcile_remoteID_set_no_Create_witness:
  "store_get_workflow (env1\<lparr>store_get_workflow := \<lambda>r. Inr wf1_created\<rparr>) req1 = Inr wf1_created \<and>
   TinkID wf1_created \<noteq> [] \<and>
   WfCreate ''T1'' ''H1'' \<notin> set (snd (Reconcile (env1\<lparr>store_get_workflow := \<lambda>r. Inr wf1_created\<rparr>) req1))"
proof -
  have a: "store_get_workflow (env1\<lparr>store_get_workflow := \<lambda>r. Inr wf1_created\<rparr>) req1 = Inr wf1_created"
    by simp
  have b: "TinkID wf1_created \<noteq> []"
    by (simp add: TinkID_def wf1_created_def)
  from a b Reconcile_remoteID_set_no_Create [OF a b, of "''T1''" "''H1''"] show ?thesis
    by simp
qed

section \<open>Finalizer before creation\<close>

text \<open>
  C3. When a pass calls Create, the resource was loaded and the finalizer marker was on
  it before that call: either the loaded resource already carried the marker, or a store
  patch that adds it came earlier in the pass and was accepted by the store.
\<close>

theorem Reconcile_finalizer_before_Create:
  assumes "snd (Reconcile env req) = pre @ WfCreate t h # post"
  shows "\<exists>w. store_get_workflow env req = Inr w \<and>
           (WorkflowFinalizer \<in> set (Finalizers w) \<or>
            (StorePatch w (AddFinalizer w WorkflowFinalizer) \<in> set pre \<and>
             store_patch env w (AddFinalizer w WorkflowFinalizer) = None \<and>
             WorkflowFinalizer \<in> set (Finalizers (AddFinalizer w WorkflowFinalizer))))"
proof -
  from assms have "WfCreate t h \<in> set (snd (Reconcile env req))" by simp
  then obtain w w' tr where w: "store_get_workflow env req = Inr w"
    and e: "EnsureFinalizer env w WorkflowFinalizer = (Inr w', tr)"
    and s: "snd (Reconcile env req) = (StoreGetWorkflow req # tr) @ snd (reconcileNormal env w')"
    using Reconcile_trace_shape by blast
  have "WfCreate t h \<notin> set (StoreGetWorkflow req # tr)"
    using e by (auto simp add: EnsureFinalizer_def Let_def split: if_splits option.splits)
  with s assms obtain pre' where pre: "pre = (StoreGetWorkflow req # tr) @ pre'"
    using split_after_prefix [of "StoreGetWorkflow req # tr" "snd (reconcileNormal env w')" pre "WfCreate t h" post]
    by auto
  from EnsureFinalizer_persisted [OF e] pre w show ?thesis
    by (auto simp add: AddFinalizer_def)
qed

theorem Reconcile_finalizer_before_Create_witness:
  "snd (Reconcile (env1\<lparr>store_get_workflow := \<lambda>r. Inr (wf1\<lparr>Finalizers := []\<rparr>)\<rparr>) req1) =
     [StoreGetWorkflow req1, StorePatch (wf1\<lparr>Finalizers := []\<rparr>) wf1,
      StoreGetHardware ''hw-1'', StoreGetTemplate ''tpl-1''] @
     WfCreate ''T1'' ''H1'' #
     drop 5 (snd (Reconcile (env1\<lparr>store_get_workflow := \<lambda>r. Inr (wf1\<lparr>Finalizers := []\<rparr>)\<rparr>) req1)) \<and>
   (\<exists>w. store_get_workflow (env1\<lparr>store_get_workflow := \<lambda>r. Inr (wf1\<lparr>Finalizers := []\<rparr>)\<rparr>) req1 = Inr w \<and>
        (WorkflowFinalizer \<in> set (Finalizers w) \<or>
         StorePatch w (AddFinalizer w WorkflowFinalizer)
           \<in> set [StoreGetWorkflow req1, StorePatch (wf1\<lparr>Finalizers := []\<rparr>) wf1,
                  StoreGetHardware ''hw-1'', StoreGetTemplate ''tpl-1''] \<and>
         store_patch (env1\<lparr>store_get_workflow := \<lambda>r. Inr (wf1\<lparr>Finalizers := []\<rparr>)\<rparr>) w
           (AddFinalizer w WorkflowFinalizer) = None \<and>
         WorkflowFinalizer \<in> set (Finalizers (AddFinalizer w WorkflowFinalizer))))"
proof -
  have a: "snd (Reconcile (env1\<lparr>store_get_workflow := \<lambda>r. Inr (wf1\<lparr>Finalizers := []\<rparr>)\<rparr>) req1) =
     [StoreGetWorkflow req1, StorePatch (wf1\<lparr>Finalizers := []\<rparr>) wf1,
      StoreGetHardware ''hw-1'', StoreGetTemplate ''tpl-1''] @
     WfCreate ''T1'' ''H1'' #
     drop 5 (snd (Reconcile (env1\<lparr>store_get_workflow := \<lambda>r. Inr (wf1\<lparr>Finalizers := []\<rparr>)\<rparr>) req1))"
    by (simp add: reconcile_unfold scenario_unfold)
  from a Reconcile_finalizer_before_Create [OF a] show ?thesis
    by blast
qed

section \<open>Requeue until the terminal state\<close>

text \<open>
  C4. For a resource that is not being deleted: when a pass ends without error, the
  remote execution and its state were fetched, and the result asks for a requeue after
  exactly one minute (60000000000 nanoseconds) if that state is not \<open>STATE_SUCCESS\<close>
  and for no requeue if it is. And a pass does end without error, with that result,
  whenever its calls succeed: the finalizer step, the creation when no id is recorded,
  the fetch of the remote execution, the store patch and the four status fetches.
\<close>

theorem Reconcile_requeue_until_success:
  assumes "store_get_workflow env req = Inr w"
    and "IsZero (DeletionTimestamp w)"
  shows "(\<forall>res tr. Reconcile env req = (Inr res, tr) \<longrightarrow>
            (\<exists>wid tw state. WfGet wid \<in> set tr \<and> wf_get env wid = Inr tw \<and>
               WfGetState (tw_Id tw) \<in> set tr \<and> wf_get_state env (tw_Id tw) = Inr state \<and>
               res = (if state \<noteq> STATE_SUCCESS then \<lparr>Requeue = False, RequeueAfter = 60000000000\<rparr>
                      else \<lparr>Requeue = False, RequeueAfter = 0\<rparr>))) \<and>
         (\<forall>w' te wid tc tw md acts evs state.
            EnsureFinalizer env w WorkflowFinalizer = (Inr w', te) \<and>
            (if TinkID w' = [] then createWorkflow env w' else (Inr (TinkID w'), [])) = (Inr wid, tc) \<and>
            wf_get env wid = Inr tw \<and>
            store_patch env w' (SetTinkID w' wid) = None \<and>
            wf_get_metadata env (tw_Id tw) = Inr md \<and>
            wf_get_actions env (tw_Id tw) = Inr acts \<and>
            wf_get_events env (tw_Id tw) = Inr evs \<and>
            wf_get_state env (tw_Id tw) = Inr state \<longrightarrow>
            fst (Reconcile env req) =
              Inr (if state \<noteq> STATE_SUCCESS then \<lparr>Requeue = False, RequeueAfter = 60000000000\<rparr>
                   else \<lparr>Requeue = False, RequeueAfter = 0\<rparr>))"
proof (intro conjI allI impI)
  fix res tr
  assume "Reconcile env req = (Inr res, tr)"
  with assms show "\<exists>wid tw state. WfGet wid \<in> set tr \<and> wf_get env wid = Inr tw \<and>
               WfGetState (tw_Id tw) \<in> set tr \<and> wf_get_state env (tw_Id tw) = Inr state \<and>
               res = (if state \<noteq> STATE_SUCCESS then \<lparr>Requeue = False, RequeueAfter = 60000000000\<rparr>
                      else \<lparr>Requeue = False, RequeueAfter = 0\<rparr>)"
    by (rule Reconcile_success_fetched_state)
next
  fix w' te wid tc tw md acts evs state
  assume h: "EnsureFinalizer env w WorkflowFinalizer = (Inr w', te) \<and>
            (if TinkID w' = [] then createWorkflow env w' else (Inr (TinkID w'), [])) = (Inr wid, tc) \<and>
            wf_get env wid = Inr tw \<and>
            store_patch env w' (SetTinkID w' wid) = None \<and>
            wf_get_metadata env (tw_Id tw) = Inr md \<and>
            wf_get_actions env (tw_Id tw) = Inr acts \<and>
            wf_get_events env (tw_Id tw) = Inr evs \<and>
            wf_get_state env (tw_Id tw) = Inr state"
  show "fst (Reconcile env req) =
              Inr (if state \<noteq> STATE_SUCCESS then \<lparr>Requeue = False, RequeueAfter = 60000000000\<rparr>
                   else \<lparr>Requeue = False, RequeueAfter = 0\<rparr>)"
    using assms h by (intro Reconcile_all_succeed [of env req w w' te wid tc tw md acts evs state]) simp_all
qed

theorem Reconcile_requeue_until_success_witness:
  "store_get_workflow env_done req1 = Inr wf1_created \<and>
   IsZero (DeletionTimestamp wf1_created) \<and>
   EnsureFinalizer env_done wf1_created WorkflowFinalizer = (Inr wf1_created, []) \<and>
   (if TinkID wf1_created = [] then createWorkflow env_done wf1_created
    else (Inr (TinkID wf1_created), [])) = (Inr ''R1'', []) \<and>
   wf_get env_done ''R1'' = Inr tw1 \<and>
   store_patch env_done wf1_created (SetTinkID wf1_created ''R1'') = None \<and>
   wf_get_metadata env_done (tw_Id tw1) = Inr ''meta'' \<and>
   wf_get_actions env_done (tw_Id tw1) = Inr [action1] \<and>
   wf_get_events env_done (tw_Id tw1) = Inr [event1] \<and>
   wf_get_state env_done (tw_Id tw1) = Inr STATE_SUCCESS \<and>
   fst (Reconcile env_done req1) = Inr \<lparr>Requeue = False, RequeueAfter = 0\<rparr> \<and>
   store_get_workflow env1 req1 = Inr wf1 \<and>
   IsZero (DeletionTimestamp wf1) \<and>
   EnsureFinalizer env1 wf1 WorkflowFinalizer = (Inr wf1, []) \<and>
   (if TinkID wf1 = [] then createWorkflow env1 wf1 else (Inr (TinkID wf1), [])) =
     (Inr ''R1'', [StoreGetHardware ''hw-1'', StoreGetTemplate ''tpl-1'', WfCreate ''T1'' ''H1'']) \<and>
   wf_get env1 ''R1'' = Inr tw1 \<and>
   store_patch env1 wf1 (SetTinkID wf1 ''R1'') = None \<and>
   wf_get_state env1 (tw_Id tw1) = Inr STATE_RUNNING \<and>
   fst (Reconcile env1 req1) = Inr \<lparr>Requeue = False, RequeueAfter = 60000000000\<rparr> \<and>
   (\<exists>wid tw state. WfGet wid \<in> set (snd (Reconcile env_done req1)) \<and> wf_get env_done wid = Inr tw \<and>
      WfGetState (tw_Id tw) \<in> set (snd (Reconcile env_done req1)) \<and>
      wf_get_state env_done (tw_Id tw) = Inr state \<and>
      \<lparr>Requeue = False, RequeueAfter = 0\<rparr> =
        (if state \<noteq> STATE_SUCCESS then \<lparr>Requeue = False, RequeueAfter = 60000000000\<rparr>
         else \<lparr>Requeue = False, RequeueAfter = 0\<rparr>))"
proof -
  have a: "store_get_workflow env_done req1 = Inr wf1_created"
    by (simp add: env_done_def)
  have b: "IsZero (DeletionTimestamp wf1_created)"
    by (simp add: IsZero_def wf1_created_def wf1_def)
  have h: "EnsureFinalizer env_done wf1_created WorkflowFinalizer = (Inr wf1_created, []) \<and>
    (if TinkID wf1_created = [] then createWorkflow env_done wf1_created
     else (Inr (TinkID wf1_created), [])) = (Inr ''R1'', []) \<and>
    wf_get env_done ''R1'' = Inr tw1 \<and>
    store_patch env_done wf1_created (SetTinkID wf1_created ''R1'') = None \<and>
    wf_get_metadata env_done (tw_Id tw1) = Inr ''meta'' \<and>
    wf_get_actions env_done (tw_Id tw1) = Inr [action1] \<and>
    wf_get_events env_done (tw_Id tw1) = Inr [event1] \<and>
    wf_get_state env_done (tw_Id tw1) = Inr STATE_SUCCESS"
    by (simp add: EnsureFinalizer_def TinkID_def env_done_def scenario_unfold)
  have a1: "store_get_workflow env1 req1 = Inr wf1"
    by (simp add: env1_def)
  have b1: "IsZero (DeletionTimestamp wf1)"
    by (simp add: IsZero_def wf1_def)
  have h1: "EnsureFinalizer env1 wf1 WorkflowFinalizer = (Inr wf1, []) \<and>
    (if TinkID wf1 = [] then createWorkflow env1 wf1 else (Inr (TinkID wf1), [])) =
      (Inr ''R1'', [StoreGetHardware ''hw-1'', StoreGetTemplate ''tpl-1'', WfCreate ''T1'' ''H1'']) \<and>
    wf_get env1 ''R1'' = Inr tw1 \<and>
    store_patch env1 wf1 (SetTinkID wf1 ''R1'') = None \<and>
    wf_get_metadata env1 (tw_Id tw1) = Inr ''meta'' \<and>
    wf_get_actions env1 (tw_Id tw1) = Inr [action1] \<and>
    wf_get_events env1 (tw_Id tw1) = Inr [event1] \<and>
    wf_get_state env1 (tw_Id tw1) = Inr STATE_RUNNING"
    by (simp add: EnsureFinalizer_def TinkID_def createWorkflow_def Template_TinkID_def scenario_unfold)
  note t = Reconcile_requeue_until_success [OF a b]
  note t1 = Reconcile_requeue_until_success [OF a1 b1]
  from t [THEN conjunct2, rule_format, OF h]
  have r: "fst (Reconcile env_done req1) = Inr \<lparr>Requeue = False, RequeueAfter = 0\<rparr>"
    by simp
  from t1 [THEN conjunct2, rule_format, OF h1]
  have r1: "fst (Reconcile env1 req1) = Inr \<lparr>Requeue = False, RequeueAfter = 60000000000\<rparr>"
    by simp
  from r have c: "Reconcile env_done req1 =
     (Inr \<lparr>Requeue = False, RequeueAfter = 0\<rparr>, snd (Reconcile env_done req1))"
    by (simp add: prod_eq_iff)
  from t [THEN conjunct1, rule_format, OF c] have e: "\<exists>wid tw state. WfGet wid \<in> set (snd (Reconcile env_done req1)) \<and> wf_get env_done wid = Inr tw \<and>
      WfGetState (tw_Id tw) \<in> set (snd (Reconcile env_done req1)) \<and>
      wf_get_state env_done (tw_Id tw) = Inr state \<and>
      \<lparr>Requeue = False, RequeueAfter = 0\<rparr> =
        (if state \<noteq> STATE_SUCCESS then \<lparr>Requeue = False, RequeueAfter = 60000000000\<rparr>
         else \<lparr>Requeue = False, RequeueAfter = 0\<rparr>)"
    .
  from a b h a1 b1 h1 r r1 e show ?thesis
    by (elim conjE, intro conjI) assumption+
qed

section \<open>The delete path\<close>

text \<open>
  C5. In the delete path, when \<open>remoteID\<close> is non-empty and Delete answers with an
  error that is Not-Found, the path goes on as after a successful Delete: it removes the
  finalizer marker and sends the store patch, and returns the empty result when the store
  accepts the patch (the error of the patch otherwise). The run equals the run in which
  Delete succeeds, and it continues as the run on a resource without \<open>remoteID\<close>
  does. The patched object has the same \<open>remoteID\<close> and no finalizer marker, so
  a second run of the delete path on it goes the same way.
\<close>

theorem reconcileDelete_not_found_is_success:
  assumes "TinkID w \<noteq> []"
    and "wf_delete env (TinkID w) = Some err"
    and "errors_Is err ErrNotFound"
  shows "reconcileDelete env w =
           (case store_patch env w (RemoveFinalizer w WorkflowFinalizer) of
              None \<Rightarrow>
                (Inr Result_empty,
                 [WfDelete (TinkID w), StorePatch w (RemoveFinalizer w WorkflowFinalizer)])
            | Some perr \<Rightarrow>
                (Inl (Wrap ''failed to patch workflow'' perr),
                 [WfDelete (TinkID w), StorePatch w (RemoveFinalizer w WorkflowFinalizer),
                  LogError perr ''Failed to patch workflow''])) \<and>
         reconcileDelete env w = reconcileDelete (env\<lparr>wf_delete := \<lambda>i. None\<rparr>) w \<and>
         reconcileDelete env (SetTinkID w []) =
           (case store_patch env (SetTinkID w []) (RemoveFinalizer (SetTinkID w []) WorkflowFinalizer) of
              None \<Rightarrow>
                (Inr Result_empty,
                 [StorePatch (SetTinkID w []) (RemoveFinalizer (SetTinkID w []) WorkflowFinalizer)])
            | Some perr \<Rightarrow>
                (Inl (Wrap ''failed to patch workflow'' perr),
                 [StorePatch (SetTinkID w []) (RemoveFinalizer (SetTinkID w []) WorkflowFinalizer),
                  LogError perr ''Failed to patch workflow''])) \<and>
         WorkflowFinalizer \<notin> set (Finalizers (RemoveFinalizer w WorkflowFinalizer)) \<and>
         TinkID (RemoveFinalizer w WorkflowFinalizer) = TinkID w"
  using assms
  by (simp add: reconcileDelete_def Let_def RemoveFinalizer_def TinkID_def SetTinkID_def
        split: option.splits)

theorem reconcileDelete_not_found_is_success_witness:
  "TinkID wf1_deleting \<noteq> [] \<and>
   wf_delete (env1\<lparr>wf_delete := \<lambda>i. Some (Wrap ''rpc'' ErrNotFound)\<rparr>) (TinkID wf1_deleting)
     = Some (Wrap ''rpc'' ErrNotFound) \<and>
   errors_Is (Wrap ''rpc'' ErrNotFound) ErrNotFound \<and>
   reconcileDelete (env1\<lparr>wf_delete := \<lambda>i. Some (Wrap ''rpc'' ErrNotFound)\<rparr>) wf1_deleting =
     (Inr Result_empty,
      [WfDelete ''R1'', StorePatch wf1_deleting (wf1_deleting\<lparr>Finalizers := []\<rparr>)]) \<and>
   reconcileDelete (env1\<lparr>wf_delete := \<lambda>i. Some (Wrap ''rpc'' ErrNotFound)\<rparr>)
       (wf1_deleting\<lparr>Finalizers := []\<rparr>) =
     (Inr Result_empty,
      [WfDelete ''R1'', StorePatch (wf1_deleting\<lparr>Finalizers := []\<rparr>) (wf1_deleting\<lparr>Finalizers := []\<rparr>)])"
proof -
  let ?env = "env1\<lparr>wf_delete := \<lambda>i. Some (Wrap ''rpc'' ErrNotFound)\<rparr>"
  let ?w2 = "wf1_deleting\<lparr>Finalizers := []\<rparr>"
  have a: "TinkID wf1_deleting \<noteq> []"
    by (simp add: TinkID_def scenario_unfold)
  have a2: "TinkID ?w2 \<noteq> []"
    by (simp add: TinkID_def scenario_unfold)
  have b: "wf_delete ?env (TinkID wf1_deleting) = Some (Wrap ''rpc'' ErrNotFound)"
    by simp
  have b2: "wf_delete ?env (TinkID ?w2) = Some (Wrap ''rpc'' ErrNotFound)"
    by simp
  have c: "errors_Is (Wrap ''rpc'' ErrNotFound) ErrNotFound"
    by simp
  have r: "RemoveFinalizer wf1_deleting WorkflowFinalizer = ?w2"
    "RemoveFinalizer ?w2 WorkflowFinalizer = ?w2" "TinkID wf1_deleting = ''R1''" "TinkID ?w2 = ''R1''"
    "\<And>x y. store_patch env1 x y = None"
    by (simp_all add: RemoveFinalizer_def TinkID_def scenario_unfold WorkflowFinalizer_def)
  from a b c reconcileDelete_not_found_is_success [OF a b c]
    reconcileDelete_not_found_is_success [OF a2 b2 c]
  show ?thesis
    by (simp add: r)
qed

text \<open>
  C6. In the delete path, when \<open>remoteID\<close> is non-empty and Delete answers with an
  error that is not Not-Found, the path returns that error, wrapped, after the Delete call
  and a log line: no store patch is sent, so the finalizer marker is not removed and
  nothing of the resource is persisted.
\<close>

theorem reconcileDelete_other_error_aborts:
  assumes "TinkID w \<noteq> []"
    and "wf_delete env (TinkID w) = Some err"
    and "\<not> errors_Is err ErrNotFound"
  shows "reconcileDelete env w =
           (Inl (Wrap ''failed to delete workflow from Tinkerbell'' err),
            [WfDelete (TinkID w), LogError err ''Failed to delete workflow from Tinkerbell'']) \<and>
         (\<forall>base obj. StorePatch base obj \<notin> set (snd (reconcileDelete env w)) \<and>
                     StoreStatusPatch base obj \<notin> set (snd (reconcileDelete env w)))"
  using assms by (simp add: reconcileDelete_def)

theorem reconcileDelete_other_error_aborts_witness:
  "TinkID wf1_deleting \<noteq> [] \<and>
   wf_delete (env1\<lparr>wf_delete := \<lambda>i. Some (Failure ''unavailable'')\<rparr>) (TinkID wf1_deleting)
     = Some (Failure ''unavailable'') \<and>
   \<not> errors_Is (Failure ''unavailable'') ErrNotFound \<and>
   reconcileDelete (env1\<lparr>wf_delete := \<lambda>i. Some (Failure ''unavailable'')\<rparr>) wf1_deleting =
     (Inl (Wrap ''failed to delete workflow from Tinkerbell'' (Failure ''unavailable'')),
      [WfDelete ''R1'', LogError (Failure ''unavailable'') ''Failed to delete workflow from Tinkerbell'']) \<and>
   (\<forall>base obj.
      StorePatch base obj
        \<notin> set (snd (reconcileDelete (env1\<lparr>wf_delete := \<lambda>i. Some (Failure ''unavailable'')\<rparr>) wf1_deleting)) \<and>
      StoreStatusPatch base obj
        \<notin> set (snd (reconcileDelete (env1\<lparr>wf_delete := \<lambda>i. Some (Failure ''unavailable'')\<rparr>) wf1_deleting)))"
proof -
  let ?env = "env1\<lparr>wf_delete := \<lambda>i. Some (Failure ''unavailable'')\<rparr>"
  have a: "TinkID wf1_deleting \<noteq> []"
    by (simp add: TinkID_def scenario_unfold)
  have b: "wf_delete ?env (TinkID wf1_deleting) = Some (Failure ''unavailable'')"
    by simp
  have c: "\<not> errors_Is (Failure ''unavailable'') ErrNotFound"
    by simp
  have r: "TinkID wf1_deleting = ''R1''"
    by (simp add: TinkID_def scenario_unfold)
  from a b c reconcileDelete_other_error_aborts [OF a b c] show ?thesis
    by (simp add: r)
qed

section \<open>A failing status patch\<close>

text \<open>
  C9. When the four status fetches succeed and the store rejects the deferred status
  patch, \<open>reconcileStatus\<close> logs the error of the patch and still returns no error: the
  one-minute requeue when the state is not \<open>STATE_SUCCESS\<close>, the empty result when it
  is. What Reconcile returns is the same as with a store that accepts every status patch.
\<close>

theorem status_patch_failure_only_logged:
  assumes "wf_get_metadata env (tw_Id tw) = Inr md"
    and "wf_get_actions env (tw_Id tw) = Inr acts"
    and "wf_get_events env (tw_Id tw) = Inr evs"
    and "wf_get_state env (tw_Id tw) = Inr state"
    and "store_status_patch env w
           (w\<lparr>Status := (Status w)\<lparr>Status_Data := tw_Data tw, Status_Metadata := md,
              Status_Actions := map toAction acts, Status_Events := map toEvent evs,
              Status_State := State_String state\<rparr>\<rparr>) = Some perr"
  shows "reconcileStatus env w tw =
           (Inr (if state \<noteq> STATE_SUCCESS then \<lparr>Requeue = False, RequeueAfter = 60000000000\<rparr>
                 else \<lparr>Requeue = False, RequeueAfter = 0\<rparr>),
            [WfGetMetadata (tw_Id tw), WfGetActions (tw_Id tw), WfGetEvents (tw_Id tw),
             WfGetState (tw_Id tw),
             StoreStatusPatch w
               (w\<lparr>Status := (Status w)\<lparr>Status_Data := tw_Data tw, Status_Metadata := md,
                  Status_Actions := map toAction acts, Status_Events := map toEvent evs,
                  Status_State := State_String state\<rparr>\<rparr>),
             LogError perr ''Failed to patch workflow status'']) \<and>
         fst (Reconcile env req) = fst (Reconcile (env\<lparr>store_status_patch := \<lambda>base obj. None\<rparr>) req)"
  using rs_all_fetched [OF assms(1-4), of w] assms(5)
  by (simp add: Reconcile_result_without_patch)

theorem status_patch_failure_only_logged_witness:
  "wf_get_metadata (env1\<lparr>store_status_patch := \<lambda>base obj. Some (Failure ''conflict'')\<rparr>) (tw_Id tw1)
     = Inr ''meta'' \<and>
   wf_get_actions (env1\<lparr>store_status_patch := \<lambda>base obj. Some (Failure ''conflict'')\<rparr>) (tw_Id tw1)
     = Inr [action1] \<and>
   wf_get_events (env1\<lparr>store_status_patch := \<lambda>base obj. Some (Failure ''conflict'')\<rparr>) (tw_Id tw1)
     = Inr [event1] \<and>
   wf_get_state (env1\<lparr>store_status_patch := \<lambda>base obj. Some (Failure ''conflict'')\<rparr>) (tw_Id tw1)
     = Inr STATE_RUNNING \<and>
   fst (reconcileStatus (env1\<lparr>store_status_patch := \<lambda>base obj. Some (Failure ''conflict'')\<rparr>)
          wf1_created tw1) = Inr \<lparr>Requeue = False, RequeueAfter = 60000000000\<rparr> \<and>
   last (snd (reconcileStatus (env1\<lparr>store_status_patch := \<lambda>base obj. Some (Failure ''conflict'')\<rparr>)
          wf1_created tw1)) = LogError (Failure ''conflict'') ''Failed to patch workflow status'' \<and>
   fst (Reconcile (env1\<lparr>store_status_patch := \<lambda>base obj. Some (Failure ''conflict'')\<rparr>) req1) =
     Inr \<lparr>Requeue = False, RequeueAfter = 60000000000\<rparr>"
proof -
  let ?env = "env1\<lparr>store_status_patch := \<lambda>base obj. Some (Failure ''conflict'')\<rparr>"
  have a: "wf_get_metadata ?env (tw_Id tw1) = Inr ''meta''"
    and b: "wf_get_actions ?env (tw_Id tw1) = Inr [action1]"
    and c: "wf_get_events ?env (tw_Id tw1) = Inr [event1]"
    and d: "wf_get_state ?env (tw_Id tw1) = Inr STATE_RUNNING"
    by (simp_all add: env1_def tw1_def)
  have e: "store_status_patch ?env wf1_created
             (wf1_created\<lparr>Status := (Status wf1_created)\<lparr>Status_Data := tw_Data tw1,
                Status_Metadata := ''meta'', Status_Actions := map toAction [action1],
                Status_Events := map toEvent [event1],
                Status_State := State_String STATE_RUNNING\<rparr>\<rparr>) = Some (Failure ''conflict'')"
    by simp
  have f: "fst (Reconcile (?env\<lparr>store_status_patch := \<lambda>base obj. None\<rparr>) req1) =
     Inr \<lparr>Requeue = False, RequeueAfter = 60000000000\<rparr>"
    by (simp add: reconcile_unfold scenario_unfold Minute_def Second_def)
  from a b c d f status_patch_failure_only_logged [OF a b c d e, of req1] show ?thesis
    by simp
qed

section \<open>Partial status\<close>

text \<open>
  C7. The status sync fetches metadata, actions, events and state in this order. When a
  fetch fails, no later fetch is made, the error is logged and returned wrapped, and
  before that the status patch is sent with what was gathered so far: the data alone when
  the metadata fetch fails; data and metadata when the actions fetch fails; data, metadata
  and the fetched actions, field by field, when the events fetch fails (events and state
  of the status are then as they were); these and the fetched events when the state fetch
  fails. After the patch there is at most the log line of a rejected patch.
\<close>

theorem reconcileStatus_partial_status_patched:
  "(let ident = tw_Id tw;
        action_of = (\<lambda>a. \<lparr>Action_Name = wa_Name a, Action_TaskName = wa_TaskName a,
                           Action_Image = wa_Image a, Action_Timeout = wa_Timeout a,
                           Action_Command = wa_Command a, Action_OnTimeout = wa_OnTimeout a,
                           Action_OnFailure = wa_OnFailure a, Action_WorkerID = wa_WorkerId a,
                           Action_Volumes = wa_Volumes a, Action_Environment = wa_Environment a\<rparr>);
        event_of = (\<lambda>e. \<lparr>Event_ActionName = was_ActionName e, Event_TaskName = was_TaskName e,
                          Event_ActionStatus = State_String (was_ActionStatus e),
                          Event_Seconds = was_Seconds e, Event_Message = was_Message e,
                          Event_WorkerID = was_WorkerId e, Event_CreatedAt = was_CreatedAt e\<rparr>);
        w1 = w\<lparr>Status := (Status w)\<lparr>Status_Data := tw_Data tw\<rparr>\<rparr>;
        w2 = w1\<lparr>Status := (Status w1)\<lparr>Status_Metadata := md\<rparr>\<rparr>;
        w3 = w2\<lparr>Status := (Status w2)\<lparr>Status_Actions := map action_of acts\<rparr>\<rparr>;
        w4 = w3\<lparr>Status := (Status w3)\<lparr>Status_Events := map event_of evs\<rparr>\<rparr>;
        patch_log = (\<lambda>obj. case store_status_patch env w obj of
                              Some perr \<Rightarrow> [LogError perr ''Failed to patch workflow status'']
                            | None \<Rightarrow> [])
    in
      (wf_get_metadata env ident = Inl err \<longrightarrow>
         reconcileStatus env w tw =
           (Inl (Wrap ''failed to get metadata for workflow'' err),
            [WfGetMetadata ident, LogError err ''Failed to get metadata for workflow'',
             StoreStatusPatch w w1] @ patch_log w1)) \<and>
      (wf_get_metadata env ident = Inr md \<and> wf_get_actions env ident = Inl err \<longrightarrow>
         reconcileStatus env w tw =
           (Inl (Wrap ''failed to get actions for workflow'' err),
            [WfGetMetadata ident, WfGetActions ident,
             LogError err ''Failed to get actions for workflow'',
             StoreStatusPatch w w2] @ patch_log w2)) \<and>
      (wf_get_metadata env ident = Inr md \<and> wf_get_actions env ident = Inr acts \<and>
       wf_get_events env ident = Inl err \<longrightarrow>
         reconcileStatus env w tw =
           (Inl (Wrap ''failed to get events for workflow'' err),
            [WfGetMetadata ident, WfGetActions ident, WfGetEvents ident,
             LogError err ''Failed to get events for workflow'',
             StoreStatusPatch w w3] @ patch_log w3) \<and>
         (\<exists>obj. StoreStatusPatch w obj \<in> set (snd (reconcileStatus env w tw)) \<and>
                Status_Actions (Status obj) = map action_of acts \<and>
                map Action_Name (Status_Actions (Status obj)) = map wa_Name acts \<and>
                Status_Metadata (Status obj) = md \<and>
                Status_Data (Status obj) = tw_Data tw \<and>
                Status_Events (Status obj) = Status_Events (Status w) \<and>
                Status_State (Status obj) = Status_State (Status w))) \<and>
      (wf_get_metadata env ident = Inr md \<and> wf_get_actions env ident = Inr acts \<and>
       wf_get_events env ident = Inr evs \<and> wf_get_state env ident = Inl err \<longrightarrow>
         reconcileStatus env w tw =
           (Inl (Wrap ''failed to get state for workflow'' err),
            [WfGetMetadata ident, WfGetActions ident, WfGetEvents ident, WfGetState ident,
             LogError err ''Failed to get state for workflow'',
             StoreStatusPatch w w4] @ patch_log w4)))"
  by (simp add: Let_def rs_metadata_fails rs_actions_fail rs_events_fail rs_state_fails
        toAction_fields toEvent_fields comp_def)

theorem reconcileStatus_partial_status_patched_witness:
  "wf_get_metadata (env1\<lparr>wf_get_events := \<lambda>i. Inl (Failure ''unavailable'')\<rparr>) (tw_Id tw1) = Inr ''meta'' \<and>
   wf_get_actions (env1\<lparr>wf_get_events := \<lambda>i. Inl (Failure ''unavailable'')\<rparr>) (tw_Id tw1) = Inr [action1] \<and>
   wf_get_events (env1\<lparr>wf_get_events := \<lambda>i. Inl (Failure ''unavailable'')\<rparr>) (tw_Id tw1)
     = Inl (Failure ''unavailable'') \<and>
   reconcileStatus (env1\<lparr>wf_get_events := \<lambda>i. Inl (Failure ''unavailable'')\<rparr>) wf1_created tw1 =
     (Inl (Wrap ''failed to get events for workflow'' (Failure ''unavailable'')),
      [WfGetMetadata ''R1'', WfGetActions ''R1'', WfGetEvents ''R1'',
       LogError (Failure ''unavailable'') ''Failed to get events for workflow'',
       StoreStatusPatch wf1_created
         (wf1_created\<lparr>Status :=
            \<lparr>Status_State = [], Status_Data = ''payload'', Status_Metadata = ''meta'',
             Status_Actions =
               [\<lparr>Action_Name = ''hello_world'', Action_TaskName = ''hello world'',
                 Action_Image = ''hello-world'', Action_Timeout = 60, Action_Command = [],
                 Action_OnTimeout = [], Action_OnFailure = [], Action_WorkerID = ''H1'',
                 Action_Volumes = [], Action_Environment = []\<rparr>],
             Status_Events = []\<rparr>\<rparr>)]) \<and>
   reconcileStatus (env1\<lparr>wf_get_metadata := \<lambda>i. Inl (Failure ''unavailable'')\<rparr>) wf1_created tw1 =
     (Inl (Wrap ''failed to get metadata for workflow'' (Failure ''unavailable'')),
      [WfGetMetadata ''R1'', LogError (Failure ''unavailable'') ''Failed to get metadata for workflow'',
       StoreStatusPatch wf1_created
         (wf1_created\<lparr>Status :=
            \<lparr>Status_State = [], Status_Data = ''payload'', Status_Metadata = [],
             Status_Actions = [], Status_Events = []\<rparr>\<rparr>)]) \<and>
   reconcileStatus (env1\<lparr>wf_get_actions := \<lambda>i. Inl (Failure ''unavailable'')\<rparr>) wf1_created tw1 =
     (Inl (Wrap ''failed to get actions for workflow'' (Failure ''unavailable'')),
      [WfGetMetadata ''R1'', WfGetActions ''R1'',
       LogError (Failure ''unavailable'') ''Failed to get actions for workflow'',
       StoreStatusPatch wf1_created
         (wf1_created\<lparr>Status :=
            \<lparr>Status_State = [], Status_Data = ''payload'', Status_Metadata = ''meta'',
             Status_Actions = [], Status_Events = []\<rparr>\<rparr>)]) \<and>
   reconcileStatus (env1\<lparr>wf_get_state := \<lambda>i. Inl (Failure ''unavailable'')\<rparr>) wf1_created tw1 =
     (Inl (Wrap ''failed to get state for workflow'' (Failure ''unavailable'')),
      [WfGetMetadata ''R1'', WfGetActions ''R1'', WfGetEvents ''R1'', WfGetState ''R1'',
       LogError (Failure ''unavailable'') ''Failed to get state for workflow'',
       StoreStatusPatch wf1_created
         (wf1_created\<lparr>Status :=
            \<lparr>Status_State = [], Status_Data = ''payload'', Status_Metadata = ''meta'',
             Status_Actions =
               [\<lparr>Action_Name = ''hello_world'', Action_TaskName = ''hello world'',
                 Action_Image = ''hello-world'', Action_Timeout = 60, Action_Command = [],
                 Action_OnTimeout = [], Action_OnFailure = [], Action_WorkerID = ''H1'',
                 Action_Volumes = [], Action_Environment = []\<rparr>],
             Status_Events =
               [\<lparr>Event_ActionName = ''hello_world'', Event_TaskName = ''hello world'',
                 Event_ActionStatus = ''STATE_RUNNING'', Event_Seconds = 0,
                 Event_Message = ''started'', Event_WorkerID = ''H1'',
                 Event_CreatedAt = 1600000000\<rparr>]\<rparr>\<rparr>)])"
proof -
  have env: "\<And>f. wf_get_metadata (env1\<lparr>wf_get_metadata := f\<rparr>) = f"
    "\<And>f. wf_get_actions (env1\<lparr>wf_get_actions := f\<rparr>) = f"
    "\<And>f. wf_get_events (env1\<lparr>wf_get_events := f\<rparr>) = f"
    "\<And>f. wf_get_state (env1\<lparr>wf_get_state := f\<rparr>) = f"
    "wf_get_metadata env1 ''R1'' = Inr ''meta''" "wf_get_actions env1 ''R1'' = Inr [action1]"
    "wf_get_events env1 ''R1'' = Inr [event1]" "\<And>x y. store_status_patch env1 x y = None"
    "tw_Id tw1 = ''R1''" "tw_Data tw1 = ''payload''" "Status wf1_created = status0"
    by (simp_all add: env1_def tw1_def wf1_created_def wf1_def)
  from
    reconcileStatus_partial_status_patched
      [of tw1 wf1_created "''meta''" "[action1]" "[event1]"
          "env1\<lparr>wf_get_events := \<lambda>i. Inl (Failure ''unavailable'')\<rparr>" "Failure ''unavailable''"]
    reconcileStatus_partial_status_patched
      [of tw1 wf1_created "''meta''" "[action1]" "[event1]"
          "env1\<lparr>wf_get_metadata := \<lambda>i. Inl (Failure ''unavailable'')\<rparr>" "Failure ''unavailable''"]
    reconcileStatus_partial_status_patched
      [of tw1 wf1_created "''meta''" "[action1]" "[event1]"
          "env1\<lparr>wf_get_actions := \<lambda>i. Inl (Failure ''unavailable'')\<rparr>" "Failure ''unavailable''"]
    reconcileStatus_partial_status_patched
      [of tw1 wf1_created "''meta''" "[action1]" "[event1]"
          "env1\<lparr>wf_get_state := \<lambda>i. Inl (Failure ''unavailable'')\<rparr>" "Failure ''unavailable''"]
  show ?thesis
    by (simp add: Let_def env status0_def action1_def event1_def)
qed

section \<open>Addresses of the MAC generator\<close>

text \<open>
  C10. When a client has called \<open>Get\<close> on one generator any number of times and all
  calls have returned, the addresses returned are pairwise distinct and none of them was
  in the generator before; the generator holds them afterwards. Each returned address is
  the rendering of six bytes whose first octet has bit 0 (multicast) cleared and bit 1
  (locally administered) set.
\<close>

theorem Get_calls_fresh_local_unicast:
  assumes "Get_calls rnd n m k = Some (rs, m', k')"
  shows "distinct (returned_keys rs) \<and> set (returned_keys rs) \<inter> addresses m = {} \<and>
         addresses m' = addresses m \<union> set (returned_keys rs) \<and>
         (\<forall>key \<in> set (returned_keys rs).
            \<exists>mac. length mac = 6 \<and> key = HardwareAddr_String mac \<and>
                  \<not> bit (mac ! 0) 0 \<and> bit (mac ! 0) 1)"
  using assms
proof (induction n arbitrary: m k rs m' k')
  case 0
  then show ?case by simp
next
  case (Suc n)
  from Suc.prems obtain r m1 k1 rs1 where g: "Get rnd m k = Some (r, m1, k1)"
    and c: "Get_calls rnd n m1 k1 = Some (rs1, m', k')" and rs: "rs = r # rs1"
    by (auto split: option.splits)
  note ih = Suc.IH [OF c]
  show ?case
  proof (cases r)
    case (Inl err)
    with Get_sound [OF g] have "m1 = m" by simp
    with ih rs Inl show ?thesis by simp
  next
    case (Inr key)
    with Get_sound [OF g] have fresh: "key \<notin> addresses m"
      and m1: "addresses m1 = insert key (addresses m)"
      and good: "\<exists>mac. length mac = 6 \<and> key = HardwareAddr_String mac \<and>
                  \<not> bit (mac ! 0) 0 \<and> bit (mac ! 0) 1"
      by simp_all
    from ih m1 have "key \<notin> set (returned_keys rs1)" by auto
    with ih m1 fresh good rs Inr show ?thesis by auto
  qed
qed

theorem Get_calls_fresh_local_unicast_witness:
  "Get_calls rnd1 2 \<lparr>addresses = {}\<rparr> 0 =
     Some ([Inr ''fe:ff:ff:ff:ff:ff'', Inr ''0e:0d:0e:0f:10:11''],
           \<lparr>addresses = {''0e:0d:0e:0f:10:11'', ''fe:ff:ff:ff:ff:ff''}\<rparr>, 3) \<and>
   distinct [''fe:ff:ff:ff:ff:ff'', ''0e:0d:0e:0f:10:11''] \<and>
   (\<exists>mac. length mac = 6 \<and> ''fe:ff:ff:ff:ff:ff'' = HardwareAddr_String mac \<and>
          \<not> bit (mac ! 0) 0 \<and> bit (mac ! 0) 1) \<and>
   (\<exists>mac. length mac = 6 \<and> ''0e:0d:0e:0f:10:11'' = HardwareAddr_String mac \<and>
          \<not> bit (mac ! 0) 0 \<and> bit (mac ! 0) 1)"
proof -
  have a: "Get_calls rnd1 2 \<lparr>addresses = {}\<rparr> 0 =
     Some ([Inr ''fe:ff:ff:ff:ff:ff'', Inr ''0e:0d:0e:0f:10:11''],
           \<lparr>addresses = {''0e:0d:0e:0f:10:11'', ''fe:ff:ff:ff:ff:ff''}\<rparr>, 3)"
    by code_simp
  from a Get_calls_fresh_local_unicast [OF a] show ?thesis
    by simp
qed

section \<open>Recording the id of a created execution\<close>

text \<open>
  C1. The id returned by Create should be persisted into \<open>remoteID\<close> before any further
  call on the remote service. The code calls Get first: in the scenario of the spec with
  a remote service whose Get fails after Create has returned \<open>R1\<close>, the pass calls Get
  right after Create and returns the error of Get; it sends no store patch, so \<open>R1\<close> is
  recorded nowhere. The resource in the store is unchanged, and a later pass on it, with
  the remote service answering again, calls Create once more.
\<close>

theorem Reconcile_Get_failure_after_Create:
  "wf_create (env1\<lparr>wf_get := \<lambda>i. Inl (Failure ''unavailable'')\<rparr>) ''T1'' ''H1'' = Inr ''R1'' \<and>
   Reconcile (env1\<lparr>wf_get := \<lambda>i. Inl (Failure ''unavailable'')\<rparr>) req1 =
     (Inl (Wrap ''failed to get workflow'' (Failure ''unavailable'')),
      [StoreGetWorkflow req1, StoreGetHardware ''hw-1'', StoreGetTemplate ''tpl-1'',
       WfCreate ''T1'' ''H1'', WfGet ''R1'']) \<and>
   WfCreate ''T1'' ''H1'' \<in> set (snd (Reconcile env1 req1))"
  by (simp add: reconcile_unfold scenario_unfold)

end
